theory Spec2Isabelle
  imports Main
begin

section \<open>Values shared by both cache stores\<close>

text \<open>
  The outcome of a call that may throw (or of an awaited promise that may reject):
  \<open>Throws\<close> is the exception, \<open>Returns x\<close> the value.
\<close>

datatype 'a reply = Throws | Returns 'a

text \<open>
  A JavaScript \<open>number\<close> used as a time-to-live in seconds. Whole seconds are kept as
  \<open>Num\<close>; \<open>NaN\<close> is kept because, like \<open>0\<close>, it is falsy.
\<close>

datatype number = NaN | Num int

fun truthy :: "number \<Rightarrow> bool" where
  "truthy NaN = False"
| "truthy (Num n) = (n \<noteq> 0)"

text \<open>\<open>ttl || d\<close>: an omitted (\<open>undefined\<close>) or falsy \<open>ttl\<close> gives \<open>d\<close>.\<close>

fun or_default :: "number option \<Rightarrow> number \<Rightarrow> number" where
  "or_default None d = d"
| "or_default (Some n) d = (if truthy n then n else d)"

text \<open>\<open>ttl ?? d\<close>: only an omitted (\<open>undefined\<close>) \<open>ttl\<close> gives \<open>d\<close>.\<close>

fun nullish_default :: "number option \<Rightarrow> number \<Rightarrow> number" where
  "nullish_default None d = d"
| "nullish_default (Some n) d = n"


section \<open>RedisCache: the network-backed store\<close>

text \<open>
  The Redis client, the logger and the timers of the JavaScript runtime are outside the
  class. What the class does to them is recorded in the state: every call made on a
  client handle is appended to \<open>calls\<close>, every log line to \<open>logger\<close>, every
  \<open>setInterval\<close> and \<open>setTimeout\<close> is an entry of \<open>intervals\<close> and \<open>timeouts\<close>.
  What they answer is an argument of the model (a \<open>reply\<close>), so every theorem holds
  for every behaviour of the Redis server.
\<close>

datatype level = Info | Warn | Err

datatype client_call =
    Connect
  | Quit
  | Get string
  | SetEx string number "string option"
  | Del string
  | Exists string
  | FlushAll

record interval_timer =
  tid :: nat
  period :: nat
  due :: nat

record RedisCache =
  client :: nat
  isAvailable :: bool
  connectionAttempts :: nat
  reconnectionTimer :: "nat option"
  calls :: "(nat \<times> client_call) list"
  logger :: "(nat \<times> level \<times> string) list"
  clock :: nat
  intervals :: "interval_timer list"
  timeouts :: "nat list"
  connecting :: nat
  created :: nat
  next_tid :: nat

text \<open>
  \<open>client\<close> is the handle held in \<open>this.client\<close> (handles are numbered as
  \<open>createRedisClient\<close> makes them, \<open>created\<close> counts them); \<open>reconnectionTimer\<close>
  holds the \<open>tid\<close> of the timer that \<open>setInterval\<close> returned (\<open>next_tid\<close> is the
  next one), \<open>None\<close> is \<open>null\<close>; \<open>clock\<close> is the time in milliseconds, and a log
  line carries the time it was written at; \<open>timeouts\<close> holds the due times of the
  pending \<open>setTimeout(() => this.connect(), ...)\<close> callbacks, whose handles the class
  does not keep; \<open>connecting\<close> counts the \<open>client.connect()\<close> promises that are still
  pending.
\<close>

definition defaultTtl :: int where
  "defaultTtl = 3600"

definition maxConnectionAttempts :: nat where
  "maxConnectionAttempts = 3"

definition connectionRetryDelay :: nat where
  "connectionRetryDelay = 5000"

definition reconnectionInterval :: nat where
  "reconnectionInterval = 30000"

definition called :: "client_call \<Rightarrow> RedisCache \<Rightarrow> RedisCache" where
  "called c st = st\<lparr>calls := calls st @ [(client st, c)]\<rparr>"

definition logged :: "level \<Rightarrow> string \<Rightarrow> RedisCache \<Rightarrow> RedisCache" where
  "logged l msg st = st\<lparr>logger := logger st @ [(clock st, l, msg)]\<rparr>"

subsection \<open>The cache operations\<close>

text \<open>
  Each operation takes the state, its arguments and the reply of the one client call it
  awaits, and returns its result with the new state. \<open>JSON.parse\<close> and
  \<open>JSON.stringify\<close> are parameters: \<open>JSON_parse s = Returns None\<close> is the text of the
  JSON value \<open>null\<close>, \<open>JSON_stringify v = Returns None\<close> is \<open>undefined\<close>. The result
  \<open>None\<close> of \<open>RedisCache_get\<close> is \<open>null\<close>. The reply of \<open>client.get\<close> is a text or
  \<open>null\<close> (\<open>None\<close>); \<open>!data\<close> holds for \<open>null\<close> and for the empty text. An operation
  reads the fields of the class only before its call, so it is taken as one step.
\<close>

definition RedisCache_get ::
  "(string \<Rightarrow> 'v option reply) \<Rightarrow> RedisCache \<Rightarrow> string \<Rightarrow> string option reply
    \<Rightarrow> 'v option \<times> RedisCache" where
  "RedisCache_get JSON_parse st key r =
     (if \<not> isAvailable st then (None, st)
      else let st1 = called (Get key) st in
        (case r of
           Throws \<Rightarrow> (None, logged Warn ''Redis get operation failed'' st1)
         | Returns None \<Rightarrow> (None, st1)
         | Returns (Some data) \<Rightarrow>
             if data = [] then (None, st1)
             else (case JSON_parse data of
                     Throws \<Rightarrow> (None, logged Warn ''Redis get operation failed'' st1)
                   | Returns v \<Rightarrow> (v, st1))))"

definition RedisCache_set ::
  "('v \<Rightarrow> string option reply) \<Rightarrow> RedisCache \<Rightarrow> string \<Rightarrow> 'v \<Rightarrow> number option
    \<Rightarrow> unit reply \<Rightarrow> bool \<times> RedisCache" where
  "RedisCache_set JSON_stringify st key v ttl r =
     (if \<not> isAvailable st then (False, st)
      else let expiry = or_default ttl (Num defaultTtl) in
        (case JSON_stringify v of
           Throws \<Rightarrow> (False, logged Warn ''Redis set operation failed'' st)
         | Returns text \<Rightarrow>
             let st1 = called (SetEx key expiry text) st in
             (case r of
                Throws \<Rightarrow> (False, logged Warn ''Redis set operation failed'' st1)
              | Returns _ \<Rightarrow> (True, st1))))"

definition RedisCache_delete ::
  "RedisCache \<Rightarrow> string \<Rightarrow> nat reply \<Rightarrow> bool \<times> RedisCache" where
  "RedisCache_delete st key r =
     (if \<not> isAvailable st then (False, st)
      else let st1 = called (Del key) st in
        (case r of
           Throws \<Rightarrow> (False, logged Warn ''Redis delete operation failed'' st1)
         | Returns _ \<Rightarrow> (True, st1)))"

definition RedisCache_has ::
  "RedisCache \<Rightarrow> string \<Rightarrow> nat reply \<Rightarrow> bool \<times> RedisCache" where
  "RedisCache_has st key r =
     (if \<not> isAvailable st then (False, st)
      else let st1 = called (Exists key) st in
        (case r of
           Throws \<Rightarrow> (False, logged Warn ''Redis exists operation failed'' st1)
         | Returns n \<Rightarrow> (n = 1, st1)))"

definition RedisCache_flush ::
  "RedisCache \<Rightarrow> unit reply \<Rightarrow> unit reply \<times> RedisCache" where
  "RedisCache_flush st r =
     (if \<not> isAvailable st then (Returns (), st)
      else let st1 = called FlushAll st in
        (case r of
           Throws \<Rightarrow> (Returns (), logged Warn ''Redis flush operation failed'' st1)
         | Returns _ \<Rightarrow> (Returns (), st1)))"

definition isHealthy :: "RedisCache \<Rightarrow> bool" where
  "isHealthy st = isAvailable st"

subsection \<open>Connecting, reconnecting, disconnecting\<close>

definition createRedisClient :: "RedisCache \<Rightarrow> RedisCache" where
  "createRedisClient st = st\<lparr>client := created st, created := Suc (created st)\<rparr>"

text \<open>
  \<open>setInterval\<close> registers a timer that first fires one period from now; the class
  keeps its handle. \<open>clearInterval\<close> removes the timer with that handle.
\<close>

definition startReconnection :: "RedisCache \<Rightarrow> RedisCache" where
  "startReconnection st =
     (if reconnectionTimer st = None then
        st\<lparr>reconnectionTimer := Some (next_tid st),
           intervals := intervals st @
             [\<lparr>tid = next_tid st, period = reconnectionInterval,
               due = clock st + reconnectionInterval\<rparr>],
           next_tid := Suc (next_tid st)\<rparr>
      else st)"

definition stopReconnectionTimer :: "RedisCache \<Rightarrow> RedisCache" where
  "stopReconnectionTimer st =
     (case reconnectionTimer st of
        None \<Rightarrow> st
      | Some t \<Rightarrow>
          st\<lparr>intervals := filter (\<lambda>x. tid x \<noteq> t) (intervals st),
             reconnectionTimer := None\<rparr>)"

text \<open>
  The two listeners that \<open>setupEventListeners\<close> registers on every handle the class
  creates: what runs when a handle emits \<open>error\<close>, and when it emits \<open>connect\<close>.
\<close>

definition on_error :: "RedisCache \<Rightarrow> RedisCache" where
  "on_error st =
     (if isAvailable st then
        startReconnection ((logged Err ''Redis client error'' st)\<lparr>isAvailable := False\<rparr>)
      else st)"

definition on_connect :: "RedisCache \<Rightarrow> RedisCache" where
  "on_connect st =
     logged Info ''Redis connected successfully''
       (stopReconnectionTimer (st\<lparr>isAvailable := True, connectionAttempts := 0\<rparr>))"

fun show_nat :: "nat \<Rightarrow> string" where
  "show_nat n =
     (if n < 10 then [''0123456789'' ! n]
      else show_nat (n div 10) @ [''0123456789'' ! (n mod 10)])"

declare show_nat.simps [simp del]

text \<open>
  \<open>connect\<close> suspends once, at \<open>await this.client.connect()\<close>. \<open>connect_begin\<close> is the
  part that runs when \<open>connect\<close> is called, up to that call; \<open>closed\<close> is the value of
  \<open>this.client.isOpen === false\<close> at that moment. \<open>connect_resolved\<close> is what runs when
  the promise resolves, \<open>connect_rejected\<close> the \<open>catch\<close> block, which runs when it
  rejects. Other callbacks can run in between.
\<close>

definition connect_begin :: "RedisCache \<Rightarrow> bool \<Rightarrow> RedisCache" where
  "connect_begin st closed =
     (if connectionAttempts st \<ge> maxConnectionAttempts then
        startReconnection
          (logged Warn ''Max Redis connection attempts reached, will retry later'' st)
      else
        let st1 = st\<lparr>connectionAttempts := connectionAttempts st + 1\<rparr>;
            st2 = (if closed then createRedisClient st1 else st1);
            st3 = called Connect st2
        in st3\<lparr>connecting := connecting st3 + 1\<rparr>)"

definition connect_resolved :: "RedisCache \<Rightarrow> RedisCache" where
  "connect_resolved st =
     logged Info ''Redis connected successfully''
       (st\<lparr>isAvailable := True, connecting := connecting st - 1\<rparr>)"

definition connect_rejected :: "RedisCache \<Rightarrow> RedisCache" where
  "connect_rejected st =
     (let st1 = st\<lparr>isAvailable := False, connecting := connecting st - 1\<rparr> in
      if connectionAttempts st1 < maxConnectionAttempts then
        (logged Warn
           (''Redis connection attempt '' @ show_nat (connectionAttempts st1)
             @ '' failed, retrying in '' @ show_nat (connectionRetryDelay div 1000) @ ''s'')
           st1)
          \<lparr>timeouts := timeouts st1 @ [clock st1 + connectionRetryDelay]\<rparr>
      else
        startReconnection
          (logged Warn ''Max Redis connection attempts reached, will retry later'' st1))"

text \<open>The callback of the reconnection timer.\<close>

definition interval_callback :: "RedisCache \<Rightarrow> bool \<Rightarrow> RedisCache" where
  "interval_callback st closed =
     (if \<not> isAvailable st then
        connect_begin
          ((logged Info ''Attempting to reconnect to Redis...'' st)\<lparr>connectionAttempts := 0\<rparr>)
          closed
      else st)"

text \<open>
  \<open>disconnect\<close> awaits \<open>this.client.quit()\<close>, whose reply is \<open>r\<close>, and swallows its
  failure.
\<close>

definition disconnect :: "RedisCache \<Rightarrow> unit reply \<Rightarrow> unit reply \<times> RedisCache" where
  "disconnect st r =
     (let st1 = called Quit (stopReconnectionTimer st) in
      case r of
        Throws \<Rightarrow> (Returns (), st1)
      | Returns _ \<Rightarrow> (Returns (), st1))"

text \<open>
  The constructor, run at time 0: it creates the first handle, registers the listeners
  and calls \<open>connect\<close>.
\<close>

definition RedisCache_new :: "bool \<Rightarrow> RedisCache" where
  "RedisCache_new closed =
     connect_begin
       (createRedisClient
         \<lparr>client = 0, isAvailable = False, connectionAttempts = 0,
          reconnectionTimer = None, calls = [], logger = [], clock = 0, intervals = [],
          timeouts = [], connecting = 0, created = 0, next_tid = 0\<rparr>)
       closed"

subsection \<open>Runs of the store\<close>

text \<open>
  What can happen to a store after its construction, one event at a time: time passes;
  a handle emits \<open>error\<close> or \<open>connect\<close>; a pending \<open>client.connect()\<close> resolves or
  rejects; a pending \<open>setTimeout\<close> callback (which calls \<open>connect\<close>) fires, not before
  it is due; the reconnection timer fires, not before it is due, and is due again one
  period later; \<open>disconnect\<close> is called; a cache operation is called, with its
  arguments and the reply of the client. \<open>step\<close> is \<open>None\<close> when the event cannot
  happen in the state.
\<close>

datatype 'v event =
    Elapse nat
  | ClientError
  | ClientConnect
  | ConnectResolves
  | ConnectRejects
  | TimeoutFires nat bool
  | IntervalFires nat bool
  | Disconnect "unit reply"
  | CallGet "string \<Rightarrow> 'v option reply" string "string option reply"
  | CallSet "'v \<Rightarrow> string option reply" string 'v "number option" "unit reply"
  | CallDelete string "nat reply"
  | CallHas string "nat reply"
  | CallFlush "unit reply"

definition rearm :: "nat \<Rightarrow> nat \<Rightarrow> interval_timer \<Rightarrow> interval_timer" where
  "rearm i now x = (if tid x = i then x\<lparr>due := now + period x\<rparr> else x)"

fun step :: "'v event \<Rightarrow> RedisCache \<Rightarrow> RedisCache option" where
  "step (Elapse d) st = Some (st\<lparr>clock := clock st + d\<rparr>)"
| "step ClientError st = Some (on_error st)"
| "step ClientConnect st = Some (on_connect st)"
| "step ConnectResolves st =
     (if connecting st = 0 then None else Some (connect_resolved st))"
| "step ConnectRejects st =
     (if connecting st = 0 then None else Some (connect_rejected st))"
| "step (TimeoutFires t closed) st =
     (if t \<in> set (timeouts st) \<and> t \<le> clock st then
        Some (connect_begin (st\<lparr>timeouts := remove1 t (timeouts st)\<rparr>) closed)
      else None)"
| "step (IntervalFires i closed) st =
     (case find (\<lambda>x. tid x = i) (intervals st) of
        None \<Rightarrow> None
      | Some x \<Rightarrow>
          if due x \<le> clock st then
            Some (interval_callback
              (st\<lparr>intervals := map (rearm i (clock st)) (intervals st)\<rparr>) closed)
          else None)"
| "step (Disconnect r) st = Some (snd (disconnect st r))"
| "step (CallGet JSON_parse key r) st = Some (snd (RedisCache_get JSON_parse st key r))"
| "step (CallSet JSON_stringify key v ttl r) st =
     Some (snd (RedisCache_set JSON_stringify st key v ttl r))"
| "step (CallDelete key r) st = Some (snd (RedisCache_delete st key r))"
| "step (CallHas key r) st = Some (snd (RedisCache_has st key r))"
| "step (CallFlush r) st = Some (snd (RedisCache_flush st r))"

fun run :: "'v event list \<Rightarrow> RedisCache \<Rightarrow> RedisCache option" where
  "run [] st = Some st"
| "run (e # es) st = (case step e st of None \<Rightarrow> None | Some st1 \<Rightarrow> run es st1)"

text \<open>
  The times at which the reconnection timer started a fresh sequence of connection
  attempts: its callback writes this log line, and nothing else does.
\<close>

definition fresh_starts :: "RedisCache \<Rightarrow> nat list" where
  "fresh_starts st =
     map fst (filter (\<lambda>e. snd (snd e) = ''Attempting to reconnect to Redis...'') (logger st))"

text \<open>Successive times are at least \<open>d\<close> apart.\<close>

fun spaced :: "nat \<Rightarrow> nat list \<Rightarrow> bool" where
  "spaced d [] = True"
| "spaced d [t] = True"
| "spaced d (t # u # ts) = (t + d \<le> u \<and> spaced d (u # ts))"

text \<open>
  The invariant of the timers: the class holds the handle of the only reconnection
  timer there is, that timer has the reconnection period and is not due before one
  period has passed since the last fresh start; fresh starts lie in the past and are
  one period apart.
\<close>

definition timer_inv :: "RedisCache \<Rightarrow> bool" where
  "timer_inv st \<longleftrightarrow>
     (case reconnectionTimer st of
        None \<Rightarrow> intervals st = []
      | Some i \<Rightarrow>
          (\<exists>x. intervals st = [x] \<and> tid x = i \<and> period x = reconnectionInterval
             \<and> (\<forall>t \<in> set (fresh_starts st). t + reconnectionInterval \<le> due x)))
     \<and> (\<forall>t \<in> set (fresh_starts st). t \<le> clock st)
     \<and> spaced reconnectionInterval (fresh_starts st)"

text \<open>
  A store whose first connection attempt is pending, and the store after that attempt
  has succeeded (the handle emitted \<open>connect\<close>, then the promise resolved).
\<close>

definition down_store :: RedisCache where
  "down_store = RedisCache_new False"

definition up_store :: RedisCache where
  "up_store = connect_resolved (on_connect (RedisCache_new False))"

text \<open>
  The store whose third connection attempt is pending, ten seconds after its
  construction; and the store in which a retry that was pending when \<open>disconnect\<close> was
  called has fired.
\<close>

definition third_attempt :: RedisCache where
  "third_attempt =
     \<lparr>client = 0, isAvailable = False, connectionAttempts = 3, reconnectionTimer = None,
      calls = [(0, Connect), (0, Connect), (0, Connect)],
      logger = [(0, Warn, ''Redis connection attempt 1 failed, retrying in 5s''),
        (5000, Warn, ''Redis connection attempt 2 failed, retrying in 5s'')],
      clock = 10000, intervals = [], timeouts = [], connecting = 1, created = 1,
      next_tid = 0\<rparr>"

definition after_teardown :: RedisCache where
  "after_teardown =
     \<lparr>client = 1, isAvailable = False, connectionAttempts = 2, reconnectionTimer = None,
      calls = [(0, Connect), (0, Quit), (1, Connect)],
      logger = [(0, Warn, ''Redis connection attempt 1 failed, retrying in 5s'')],
      clock = 5000, intervals = [], timeouts = [], connecting = 1, created = 2,
      next_tid = 0\<rparr>"

text \<open>The part of the state that the connection state machine owns.\<close>

definition connection_state ::
  "RedisCache \<Rightarrow> bool \<times> nat \<times> nat option \<times> interval_timer list \<times> nat list \<times> nat \<times> nat" where
  "connection_state st =
     (isAvailable st, connectionAttempts st, reconnectionTimer st, intervals st,
      timeouts st, connecting st, client st)"


section \<open>CacheService: the in-process store\<close>

subsection \<open>NodeCache\<close>

text \<open>
  \<open>CacheService\<close> wraps a \<open>NodeCache\<close> of the \<open>node-cache\<close> package, which is not
  among the sources. The definitions of this subsection model it from the spec's
  LocalCacheStore and CacheEntry; the results of its operations are those that the
  doc comments of \<open>CacheService\<close> give. A time-to-live is in seconds, a time in
  milliseconds. The periodic sweep (\<open>checkperiod\<close>) is not modelled: reads check the
  expiry themselves.
\<close>

text \<open>
  Modelled from the spec: the store is a mapping from key to entry; an entry holds the
  value and an optional \<open>expiresAt\<close>, whose absence means that it never expires. The
  options are the ones the constructor of \<open>CacheService\<close> passes.
\<close>

record 'v NodeCache =
  stdTTL :: int
  checkperiod :: int
  useClones :: bool
  data :: "string \<rightharpoonup> ('v \<times> int option)"

definition NodeCache_new :: "int \<Rightarrow> int \<Rightarrow> bool \<Rightarrow> 'v NodeCache" where
  "NodeCache_new std chk clones =
     \<lparr>stdTTL = std, checkperiod = chk, useClones = clones, data = Map.empty\<rparr>"

text \<open>
  Modelled from the spec: an entry whose \<open>expiresAt\<close> has passed is logically absent.
\<close>

fun expired :: "int option \<Rightarrow> int \<Rightarrow> bool" where
  "expired None now = False"
| "expired (Some t) now = (t < now)"

text \<open>
  Modelled from the spec: the time-to-live counts from the moment of the call. The spec
  does not say what a time-to-live of \<open>0\<close> or a missing one means; as in the package, \<open>0\<close>
  is no expiry, and \<open>stdTTL\<close> stands in when no number is passed.
\<close>

definition lifetime :: "int \<Rightarrow> int \<Rightarrow> int option" where
  "lifetime now secs = (if secs = 0 then None else Some (now + secs * 1000))"

fun expiresAt :: "int \<Rightarrow> int \<Rightarrow> number option \<Rightarrow> int option" where
  "expiresAt now std (Some (Num n)) = lifetime now n"
| "expiresAt now std _ = lifetime now std"

text \<open>
  Modelled from the spec: \<open>get\<close> checks the expiry at access time; it returns the value,
  or \<open>undefined\<close> (\<open>None\<close>) when the key has no entry or an expired one, which it removes.
\<close>

definition NodeCache_get :: "'v NodeCache \<Rightarrow> int \<Rightarrow> string \<Rightarrow> 'v option \<times> 'v NodeCache" where
  "NodeCache_get c now key =
     (case data c key of
        None \<Rightarrow> (None, c)
      | Some (v, t) \<Rightarrow>
          if expired t now then (None, c\<lparr>data := (data c)(key := None)\<rparr>)
          else (Some v, c))"

text \<open>
  Modelled from the spec: \<open>set\<close> overwrites any entry of the key, applies the
  time-to-live from the moment of the call, and reports success.
\<close>

definition NodeCache_set ::
  "'v NodeCache \<Rightarrow> int \<Rightarrow> string \<Rightarrow> 'v \<Rightarrow> number option \<Rightarrow> bool \<times> 'v NodeCache" where
  "NodeCache_set c now key v ttl =
     (True, c\<lparr>data := (data c)(key \<mapsto> (v, expiresAt now (stdTTL c) ttl))\<rparr>)"

text \<open>
  Modelled from the spec: \<open>del\<close> removes the entry unconditionally; its result is the
  number of deleted entries.
\<close>

definition NodeCache_del :: "'v NodeCache \<Rightarrow> string \<Rightarrow> nat \<times> 'v NodeCache" where
  "NodeCache_del c key =
     (case data c key of
        None \<Rightarrow> (0, c)
      | Some _ \<Rightarrow> (1, c\<lparr>data := (data c)(key := None)\<rparr>))"

text \<open>
  Modelled from the spec: \<open>has\<close> checks the expiry at access time, as \<open>get\<close> does, and
  tells whether the key exists.
\<close>

definition NodeCache_has :: "'v NodeCache \<Rightarrow> int \<Rightarrow> string \<Rightarrow> bool \<times> 'v NodeCache" where
  "NodeCache_has c now key =
     (case data c key of
        None \<Rightarrow> (False, c)
      | Some (v, t) \<Rightarrow>
          if expired t now then (False, c\<lparr>data := (data c)(key := None)\<rparr>)
          else (True, c))"

text \<open>Modelled from the spec: \<open>flushAll\<close> clears the mapping entirely.\<close>

definition NodeCache_flushAll :: "'v NodeCache \<Rightarrow> 'v NodeCache" where
  "NodeCache_flushAll c = c\<lparr>data := Map.empty\<rparr>"

subsection \<open>The wrapper class\<close>

text \<open>
  \<open>CacheService\<close> holds one \<open>NodeCache\<close> in its field \<open>cache\<close>. The argument \<open>now\<close> of
  an operation is the time at which it runs.
\<close>

record 'v CacheService =
  cache :: "'v NodeCache"

definition CacheService_new :: "'v CacheService" where
  "CacheService_new = \<lparr>cache = NodeCache_new 300 600 False\<rparr>"

definition CacheService_get ::
  "'v CacheService \<Rightarrow> int \<Rightarrow> string \<Rightarrow> 'v option \<times> 'v CacheService" where
  "CacheService_get svc now key =
     (case NodeCache_get (cache svc) now key of (r, c) \<Rightarrow> (r, svc\<lparr>cache := c\<rparr>))"

definition CacheService_set ::
  "'v CacheService \<Rightarrow> int \<Rightarrow> string \<Rightarrow> 'v \<Rightarrow> number option \<Rightarrow> bool \<times> 'v CacheService" where
  "CacheService_set svc now key v ttl =
     (case NodeCache_set (cache svc) now key v (Some (nullish_default ttl (Num 3600))) of
        (r, c) \<Rightarrow> (r, svc\<lparr>cache := c\<rparr>))"

definition CacheService_delete :: "'v CacheService \<Rightarrow> string \<Rightarrow> nat \<times> 'v CacheService" where
  "CacheService_delete svc key =
     (case NodeCache_del (cache svc) key of (r, c) \<Rightarrow> (r, svc\<lparr>cache := c\<rparr>))"

definition CacheService_has ::
  "'v CacheService \<Rightarrow> int \<Rightarrow> string \<Rightarrow> bool \<times> 'v CacheService" where
  "CacheService_has svc now key =
     (case NodeCache_has (cache svc) now key of (r, c) \<Rightarrow> (r, svc\<lparr>cache := c\<rparr>))"

definition CacheService_flush :: "'v CacheService \<Rightarrow> 'v CacheService" where
  "CacheService_flush svc = svc\<lparr>cache := NodeCache_flushAll (cache svc)\<rparr>"

text \<open>
  \<open>getOrSet\<close> calls \<open>this.get\<close>, then the callback, then \<open>this.set\<close>. The two methods are
  the arguments \<open>this_get\<close> and \<open>this_set\<close>; the callback is a computation on a
  world \<open>'w\<close> outside the cache that resolves (\<open>Returns\<close>) or rejects (\<open>Throws\<close>). The
  result of \<open>set\<close> is dropped; a rejection of the callback is the rejection of
  \<open>getOrSet\<close>. A cached value is a value other than \<open>undefined\<close>.
\<close>

definition getOrSet ::
  "('s \<Rightarrow> string \<Rightarrow> 'v option \<times> 's) \<Rightarrow> ('s \<Rightarrow> string \<Rightarrow> 'v \<Rightarrow> number option \<Rightarrow> bool \<times> 's)
    \<Rightarrow> 's \<Rightarrow> string \<Rightarrow> ('w \<Rightarrow> 'v reply \<times> 'w) \<Rightarrow> 'w \<Rightarrow> number option
    \<Rightarrow> 'v reply \<times> 's \<times> 'w" where
  "getOrSet this_get this_set svc key callback w ttl =
     (case this_get svc key of
        (Some cachedValue, svc1) \<Rightarrow> (Returns cachedValue, svc1, w)
      | (None, svc1) \<Rightarrow>
          (case callback w of
             (Throws, w1) \<Rightarrow> (Throws, svc1, w1)
           | (Returns v, w1) \<Rightarrow>
               (case this_set svc1 key v ttl of (_, svc2) \<Rightarrow> (Returns v, svc2, w1))))"

text \<open>
  \<open>CacheService.getOrSet\<close>: the lookup runs at time \<open>now\<close>, the store at time \<open>later\<close>,
  when the callback has resolved.
\<close>

definition CacheService_getOrSet ::
  "'v CacheService \<Rightarrow> int \<Rightarrow> int \<Rightarrow> string \<Rightarrow> ('w \<Rightarrow> 'v reply \<times> 'w) \<Rightarrow> 'w \<Rightarrow> number option
    \<Rightarrow> 'v reply \<times> 'v CacheService \<times> 'w" where
  "CacheService_getOrSet svc now later key callback w ttl =
     getOrSet (\<lambda>s k. CacheService_get s now k) (\<lambda>s k v t. CacheService_set s later k v t)
       svc key callback w ttl"

text \<open>A callback that counts its own invocations in the world.\<close>

definition counted :: "('w \<Rightarrow> 'v reply \<times> 'w) \<Rightarrow> nat \<times> 'w \<Rightarrow> 'v reply \<times> nat \<times> 'w" where
  "counted callback nw =
     (case callback (snd nw) of (r, w1) \<Rightarrow> (r, Suc (fst nw), w1))"


subsection \<open>The backing service as the operations see it\<close>

text \<open>
  The backing key-value service is a collaborator outside the sources. \<open>srv\<close> maps
  each key that the service holds, and that has not expired, to its text. The two
  definitions give the replies of the client when no call fails and both are asked on
  the same content.
\<close>

text \<open>
  Modelled from the spec: get-by-key returns the text stored under the key, or null.
\<close>

definition server_get :: "(string \<rightharpoonup> string) \<Rightarrow> string \<Rightarrow> string option reply" where
  "server_get srv key = Returns (srv key)"

text \<open>
  Modelled from the spec: exists-by-key returns the number of the given keys that
  exist, here 1 or 0.
\<close>

definition server_exists :: "(string \<rightharpoonup> string) \<Rightarrow> string \<Rightarrow> nat reply" where
  "server_exists srv key = Returns (if srv key = None then 0 else 1)"

text \<open>A local store holding one entry, written through \<open>set\<close> at time 0.\<close>

definition one_entry :: "string CacheService" where
  "one_entry = snd (CacheService_set CacheService_new 0 ''users:all'' ''[]'' None)"



section \<open>The two sample stores\<close>

lemma down_store_eq:
  "down_store = \<lparr>client = 0, isAvailable = False, connectionAttempts = 1,
     reconnectionTimer = None, calls = [(0, Connect)], logger = [], clock = 0,
     intervals = [], timeouts = [], connecting = 1, created = 1, next_tid = 0\<rparr>"
  by (simp add: down_store_def RedisCache_new_def connect_begin_def createRedisClient_def
      maxConnectionAttempts_def called_def Let_def)

lemma up_store_eq:
  "up_store = \<lparr>client = 0, isAvailable = True, connectionAttempts = 0,
     reconnectionTimer = None, calls = [(0, Connect)],
     logger = [(0, Info, ''Redis connected successfully''),
       (0, Info, ''Redis connected successfully'')], clock = 0,
     intervals = [], timeouts = [], connecting = 0, created = 1, next_tid = 0\<rparr>"
  by (simp add: up_store_def RedisCache_new_def connect_begin_def createRedisClient_def
      maxConnectionAttempts_def called_def Let_def on_connect_def connect_resolved_def
      stopReconnectionTimer_def logged_def)


section \<open>Degraded mode\<close>

text \<open>
  C1. While the store is not available, \<open>get\<close> returns null, \<open>set\<close>, \<open>delete\<close> and
  \<open>has\<close> return false, \<open>flush\<close> returns without an error, and none of them calls the
  connection handle: the state, and with it the list of calls, is unchanged.
\<close>

theorem degraded_mode_fallback:
  assumes "\<not> isAvailable st"
  shows "RedisCache_get JSON_parse st key rg = (None, st)
    \<and> RedisCache_set JSON_stringify st key v ttl rs = (False, st)
    \<and> RedisCache_delete st key rd = (False, st)
    \<and> RedisCache_has st key rh = (False, st)
    \<and> RedisCache_flush st rf = (Returns (), st)"
  using assms
  by (simp add: RedisCache_get_def RedisCache_set_def RedisCache_delete_def
      RedisCache_has_def RedisCache_flush_def)

theorem degraded_mode_fallback_witness:
  "\<not> isAvailable down_store
   \<and> RedisCache_get (\<lambda>s. Returns (Some s)) down_store ''user:1'' (Returns (Some ''x''))
       = (None, down_store)
   \<and> RedisCache_set (\<lambda>s. Returns (Some s)) down_store ''user:1'' ''x'' None (Returns ())
       = (False, down_store)
   \<and> RedisCache_delete down_store ''user:1'' (Returns 1) = (False, down_store)
   \<and> RedisCache_has down_store ''user:1'' (Returns 1) = (False, down_store)
   \<and> RedisCache_flush down_store (Returns ()) = (Returns (), down_store)
   \<and> calls (snd (RedisCache_get (\<lambda>s. Returns (Some s)) down_store ''user:1''
        (Returns (Some ''x'')))) = [(0, Connect)]"
proof -
  have h: "\<not> isAvailable down_store"
    by (simp add: down_store_eq)
  note r = degraded_mode_fallback [OF h]
  have c: "calls down_store = [(0, Connect)]"
    by (simp add: down_store_eq)
  show ?thesis
    using h c by (simp add: r)
qed

section \<open>Failing operations\<close>

lemma connection_state_called [simp]:
  "connection_state (called c st) = connection_state st"
  by (simp add: connection_state_def called_def)

lemma connection_state_logged [simp]:
  "connection_state (logged l m st) = connection_state st"
  by (simp add: connection_state_def logged_def)

lemma get_keeps_connection_state:
  "connection_state (snd (RedisCache_get JSON_parse st key r)) = connection_state st"
  by (simp add: RedisCache_get_def Let_def split: reply.splits option.splits)

lemma set_keeps_connection_state:
  "connection_state (snd (RedisCache_set JSON_stringify st key v ttl r)) = connection_state st"
  by (simp add: RedisCache_set_def Let_def split: reply.splits)

lemma delete_keeps_connection_state:
  "connection_state (snd (RedisCache_delete st key r)) = connection_state st"
  by (simp add: RedisCache_delete_def Let_def split: reply.splits)

lemma has_keeps_connection_state:
  "connection_state (snd (RedisCache_has st key r)) = connection_state st"
  by (simp add: RedisCache_has_def Let_def split: reply.splits)

lemma flush_keeps_connection_state:
  "connection_state (snd (RedisCache_flush st r)) = connection_state st"
  by (simp add: RedisCache_flush_def Let_def split: reply.splits)

text \<open>
  C5. An operation that fails while the store is connected (its client call throws, or
  the text does not parse in \<open>get\<close>, or the value does not serialise in \<open>set\<close>)
  returns its fallback value, and the connection state after it is the one before it:
  \<open>isAvailable\<close> is still true, \<open>connectionAttempts\<close> is the same, and no timer or
  retry has been added.
\<close>

theorem failing_operation_keeps_connection:
  assumes "isAvailable st"
  shows "fst (RedisCache_get JSON_parse st key Throws) = None
    \<and> (d \<noteq> [] \<and> JSON_parse d = Throws
         \<longrightarrow> fst (RedisCache_get JSON_parse st key (Returns (Some d))) = None)
    \<and> fst (RedisCache_set JSON_stringify st key v ttl Throws) = False
    \<and> (JSON_stringify v = Throws
         \<longrightarrow> fst (RedisCache_set JSON_stringify st key v ttl rs) = False)
    \<and> fst (RedisCache_delete st key Throws) = False
    \<and> fst (RedisCache_has st key Throws) = False
    \<and> fst (RedisCache_flush st Throws) = Returns ()
    \<and> connection_state (snd (RedisCache_get JSON_parse st key rg)) = connection_state st
    \<and> connection_state (snd (RedisCache_set JSON_stringify st key v ttl rs))
        = connection_state st
    \<and> connection_state (snd (RedisCache_delete st key rd)) = connection_state st
    \<and> connection_state (snd (RedisCache_has st key rh)) = connection_state st
    \<and> connection_state (snd (RedisCache_flush st rf)) = connection_state st
    \<and> fst (connection_state st) = True"
proof -
  have "fst (RedisCache_get JSON_parse st key Throws) = None"
    using assms by (simp add: RedisCache_get_def Let_def)
  moreover have "d \<noteq> [] \<and> JSON_parse d = Throws
      \<longrightarrow> fst (RedisCache_get JSON_parse st key (Returns (Some d))) = None"
    using assms by (simp add: RedisCache_get_def Let_def)
  moreover have "fst (RedisCache_set JSON_stringify st key v ttl Throws) = False"
    using assms by (simp add: RedisCache_set_def Let_def split: reply.splits)
  moreover have "JSON_stringify v = Throws
      \<longrightarrow> fst (RedisCache_set JSON_stringify st key v ttl rs) = False"
    using assms by (simp add: RedisCache_set_def Let_def)
  moreover have "fst (RedisCache_delete st key Throws) = False"
    using assms by (simp add: RedisCache_delete_def Let_def)
  moreover have "fst (RedisCache_has st key Throws) = False"
    using assms by (simp add: RedisCache_has_def Let_def)
  moreover have "fst (RedisCache_flush st Throws) = Returns ()"
    using assms by (simp add: RedisCache_flush_def Let_def)
  moreover have "fst (connection_state st) = True"
    using assms by (simp add: connection_state_def)
  ultimately show ?thesis
    by (simp add: get_keeps_connection_state set_keeps_connection_state
        delete_keeps_connection_state has_keeps_connection_state
        flush_keeps_connection_state)
qed

theorem failing_operation_keeps_connection_witness:
  "isAvailable up_store
   \<and> RedisCache_get (\<lambda>s. Returns (Some s)) up_store ''user:1'' Throws
       = (None, up_store\<lparr>calls := [(0, Connect), (0, Get ''user:1'')],
            logger := [(0, Info, ''Redis connected successfully''),
              (0, Info, ''Redis connected successfully''),
              (0, Warn, ''Redis get operation failed'')]\<rparr>)
   \<and> fst (RedisCache_delete up_store ''user:1'' Throws) = False
   \<and> connection_state (snd (RedisCache_delete up_store ''user:1'' Throws))
       = (True, 0, None, [], [], 0, 0)"
proof -
  have h: "isAvailable up_store"
    by (simp add: up_store_eq)
  have g: "RedisCache_get (\<lambda>s. Returns (Some s)) up_store ''user:1'' Throws
       = (None, up_store\<lparr>calls := [(0, Connect), (0, Get ''user:1'')],
            logger := [(0, Info, ''Redis connected successfully''),
              (0, Info, ''Redis connected successfully''),
              (0, Warn, ''Redis get operation failed'')]\<rparr>)"
    by (simp add: RedisCache_get_def up_store_eq called_def logged_def)
  have c: "connection_state up_store = (True, 0, None, [], [], 0, 0)"
    by (simp add: connection_state_def up_store_eq)
  from failing_operation_keeps_connection [OF h, where key = "''user:1''" and rd = Throws
      and JSON_parse = "\<lambda>s. Returns (Some s)" and d = "''x''"
      and JSON_stringify = "\<lambda>s. Returns (Some s)" and v = "''x''" and ttl = None
      and rs = Throws and rg = Throws and rh = Throws and rf = Throws]
  have "fst (RedisCache_delete up_store ''user:1'' Throws) = False"
    and "connection_state (snd (RedisCache_delete up_store ''user:1'' Throws))
       = connection_state up_store"
    by simp_all
  with h g c show ?thesis
    by simp
qed


section \<open>Time-to-live of a set\<close>

text \<open>
  C10. \<open>set\<close> with an explicit time-to-live of zero is \<open>set\<close> with no time-to-live:
  the same result and the same state for every reply of the client, and while the
  store is connected the one call it makes is \<open>setEx\<close> with 3600 seconds.
\<close>

theorem zero_ttl_is_default_ttl:
  "RedisCache_set JSON_stringify st key v (Some (Num 0)) r
     = RedisCache_set JSON_stringify st key v None r
   \<and> (isAvailable st \<and> JSON_stringify v = Returns payload
        \<longrightarrow> calls (snd (RedisCache_set JSON_stringify st key v (Some (Num 0)) r))
            = calls st @ [(client st, SetEx key (Num 3600) payload)])"
  by (simp add: RedisCache_set_def defaultTtl_def called_def logged_def Let_def
      split: reply.splits)

theorem zero_ttl_is_default_ttl_witness:
  "RedisCache_set (\<lambda>s. Returns (Some s)) up_store ''user:1'' ''{}'' (Some (Num 0)) (Returns ())
     = RedisCache_set (\<lambda>s. Returns (Some s)) up_store ''user:1'' ''{}'' None (Returns ())
   \<and> isAvailable up_store
   \<and> calls (snd (RedisCache_set (\<lambda>s. Returns (Some s)) up_store ''user:1'' ''{}''
        (Some (Num 0)) (Returns ())))
       = [(0, Connect), (0, SetEx ''user:1'' (Num 3600) (Some ''{}''))]"
proof -
  have h: "isAvailable up_store" and c: "calls up_store = [(0, Connect)]"
    and k: "client up_store = 0"
    by (simp_all add: up_store_eq)
  note r = zero_ttl_is_default_ttl [where JSON_stringify = "\<lambda>s. Returns (Some s)"
      and st = up_store and key = "''user:1''" and v = "''{}''" and r = "Returns ()"
      and payload = "Some ''{}''"]
  have e: "RedisCache_set (\<lambda>s. Returns (Some s)) up_store ''user:1'' ''{}'' (Some (Num 0)) (Returns ())
     = RedisCache_set (\<lambda>s. Returns (Some s)) up_store ''user:1'' ''{}'' None (Returns ())"
    using r [THEN conjunct1] .
  have f: "calls (snd (RedisCache_set (\<lambda>s. Returns (Some s)) up_store ''user:1'' ''{}''
        (Some (Num 0)) (Returns ())))
       = [(0, Connect), (0, SetEx ''user:1'' (Num 3600) (Some ''{}''))]"
    using r [THEN conjunct2] h c k by simp
  from e h f show ?thesis
    by (intro conjI)
qed

text \<open>
  C7. A \<open>set\<close> without a time-to-live: the network-backed store passes 3600 seconds to
  \<open>setEx\<close>; the in-process store, created with \<open>stdTTL\<close> 300, passes 3600 seconds to
  \<open>NodeCache\<close> too, so the entry expires 3600 seconds (3600000 ms) after the call and
  not 300 seconds after it.
\<close>

theorem set_without_ttl:
  "RedisCache_set (\<lambda>s. Returns (Some s)) up_store ''user:1'' ''{}'' None (Returns ())
     = (True, up_store\<lparr>calls := [(0, Connect),
          (0, SetEx ''user:1'' (Num 3600) (Some ''{}''))]\<rparr>)
   \<and> stdTTL (cache (CacheService_new :: string CacheService)) = 300
   \<and> data (cache (snd (CacheService_set CacheService_new now key v None))) key
       = Some (v, Some (now + 3600000))
   \<and> fst (CacheService_get (snd (CacheService_set CacheService_new 0 ''user:1'' ''{}'' None))
        300001 ''user:1'') = Some ''{}''"
  by (simp add: RedisCache_set_def defaultTtl_def called_def up_store_eq
      CacheService_set_def CacheService_new_def NodeCache_new_def NodeCache_set_def
      CacheService_get_def NodeCache_get_def lifetime_def)


section \<open>getOrSet\<close>

lemma CacheService_get_present:
  "data (cache svc) key = Some (cached, t) \<Longrightarrow> \<not> expired t now
    \<Longrightarrow> CacheService_get svc now key = (Some cached, svc)"
  by (simp add: CacheService_get_def NodeCache_get_def)

lemma CacheService_get_absent:
  "data (cache svc) key = None \<Longrightarrow> CacheService_get svc now key = (None, svc)"
  by (simp add: CacheService_get_def NodeCache_get_def)

lemma CacheService_get_expired:
  "data (cache svc) key = Some (old, t) \<Longrightarrow> expired t now
    \<Longrightarrow> fst (CacheService_get svc now key) = None"
  by (simp add: CacheService_get_def NodeCache_get_def)

lemma CacheService_set_stores:
  "data (cache (snd (CacheService_set svc now key v ttl))) key
     = Some (v, expiresAt now (stdTTL (cache svc)) (Some (nullish_default ttl (Num 3600))))"
  by (simp add: CacheService_set_def NodeCache_set_def)

lemma getOrSet_hit:
  "this_get svc key = (Some cached, svc1)
    \<Longrightarrow> getOrSet this_get this_set svc key (counted callback) (n, w) ttl
        = (Returns cached, svc1, (n, w))"
  by (simp add: getOrSet_def)

lemma getOrSet_miss:
  "this_get svc key = (None, svc1) \<Longrightarrow> callback w = (Returns v, w1)
    \<Longrightarrow> this_set svc1 key v ttl = (ok, svc2)
    \<Longrightarrow> getOrSet this_get this_set svc key (counted callback) (n, w) ttl
        = (Returns v, svc2, (Suc n, w1))"
  by (simp add: getOrSet_def counted_def)

text \<open>
  C6. With a callback that counts its invocations, started at 0: when the key has an
  entry that has not expired, \<open>getOrSet\<close> returns the cached value, leaves the store
  as it is and the count at 0 (the callback is not invoked); when the key has no entry,
  or an expired one, and the callback resolves with \<open>v\<close>, \<open>getOrSet\<close> returns \<open>v\<close>, the
  count is 1 (one invocation) and the store holds \<open>v\<close> under the key. The last
  conjunct is the call with any \<open>get\<close> and \<open>set\<close> methods: whatever boolean \<open>ok\<close> the
  \<open>set\<close> returns, the result is the computed value.
\<close>

theorem getOrSet_hit_or_compute_once:
  "(data (cache svc) key = Some (cached, t) \<and> \<not> expired t now
      \<longrightarrow> CacheService_getOrSet svc now later key (counted callback) (0, w) ttl
          = (Returns cached, svc, (0, w)))
   \<and> ((data (cache svc) key = None \<or> (\<exists>old t. data (cache svc) key = Some (old, t) \<and> expired t now))
        \<and> callback w = (Returns v, w1)
      \<longrightarrow> (\<exists>svc2. CacheService_getOrSet svc now later key (counted callback) (0, w) ttl
                   = (Returns v, svc2, (1, w1))
            \<and> data (cache svc2) key
                = Some (v, expiresAt later (stdTTL (cache svc))
                    (Some (nullish_default ttl (Num 3600))))))
   \<and> (this_get st key = (None, st1) \<and> callback w = (Returns v, w1)
        \<and> this_set st1 key v ttl = (ok, st2)
      \<longrightarrow> getOrSet this_get this_set st key (counted callback) (0, w) ttl
          = (Returns v, st2, (1, w1)))"
proof (intro conjI impI)
  assume "data (cache svc) key = Some (cached, t) \<and> \<not> expired t now"
  then have "CacheService_get svc now key = (Some cached, svc)"
    by (simp add: CacheService_get_present)
  then show "CacheService_getOrSet svc now later key (counted callback) (0, w) ttl
      = (Returns cached, svc, (0, w))"
    unfolding CacheService_getOrSet_def by (rule getOrSet_hit)
next
  assume a: "(data (cache svc) key = None
      \<or> (\<exists>old t. data (cache svc) key = Some (old, t) \<and> expired t now))
    \<and> callback w = (Returns v, w1)"
  obtain svc1 where g: "CacheService_get svc now key = (None, svc1)"
    and s: "stdTTL (cache svc1) = stdTTL (cache svc)"
    using a by (auto simp: CacheService_get_def NodeCache_get_def)
  obtain ok svc2 where p: "CacheService_set svc1 later key v ttl = (ok, svc2)"
    by (cases "CacheService_set svc1 later key v ttl")
  have "CacheService_getOrSet svc now later key (counted callback) (0, w) ttl
      = (Returns v, svc2, (Suc 0, w1))"
    unfolding CacheService_getOrSet_def
    using g a p by (intro getOrSet_miss) simp_all
  moreover have "data (cache svc2) key
      = Some (v, expiresAt later (stdTTL (cache svc)) (Some (nullish_default ttl (Num 3600))))"
    using CacheService_set_stores [of svc1 later key v ttl] p s by simp
  ultimately show "\<exists>svc2. CacheService_getOrSet svc now later key (counted callback) (0, w) ttl
        = (Returns v, svc2, (1, w1))
      \<and> data (cache svc2) key
          = Some (v, expiresAt later (stdTTL (cache svc))
              (Some (nullish_default ttl (Num 3600))))"
    by auto
next
  assume "this_get st key = (None, st1) \<and> callback w = (Returns v, w1)
    \<and> this_set st1 key v ttl = (ok, st2)"
  then show "getOrSet this_get this_set st key (counted callback) (0, w) ttl
      = (Returns v, st2, (1, w1))"
    using getOrSet_miss [of this_get st key st1 callback w v w1 this_set ttl ok st2 0]
    by simp
qed


theorem getOrSet_hit_or_compute_once_witness:
  "data (cache one_entry) ''users:all'' = Some (''[]'', Some 3600000)
   \<and> \<not> expired (Some 3600000) 1000
   \<and> CacheService_getOrSet one_entry 1000 2000 ''users:all''
        (counted (\<lambda>w. (Returns ''fresh'', w + 7))) (0, 5 :: nat) None
       = (Returns ''[]'', one_entry, (0, 5))
   \<and> data (cache one_entry) ''user:1'' = None
   \<and> fst (CacheService_getOrSet one_entry 1000 2000 ''user:1''
        (counted (\<lambda>w. (Returns ''fresh'', w + 7))) (0, 5 :: nat) None) = Returns ''fresh''
   \<and> snd (snd (CacheService_getOrSet one_entry 1000 2000 ''user:1''
        (counted (\<lambda>w. (Returns ''fresh'', w + 7))) (0, 5 :: nat) None)) = (1, 12)"
proof -
  have d1: "data (cache one_entry) ''users:all'' = Some (''[]'', Some 3600000)"
    by (simp add: one_entry_def CacheService_set_def CacheService_new_def NodeCache_new_def
        NodeCache_set_def lifetime_def)
  have d2: "data (cache one_entry) ''user:1'' = None"
    by (simp add: one_entry_def CacheService_set_def CacheService_new_def NodeCache_new_def
        NodeCache_set_def)
  have x: "\<not> expired (Some 3600000) 1000"
    by simp
  note hit = getOrSet_hit_or_compute_once [where svc = one_entry and key = "''users:all''"
      and cached = "''[]''" and t = "Some 3600000" and now = 1000 and later = 2000
      and callback = "\<lambda>w. (Returns ''fresh'', w + 7)" and w = "5 :: nat" and ttl = None,
      THEN conjunct1, rule_format]
  have h: "CacheService_getOrSet one_entry 1000 2000 ''users:all''
        (counted (\<lambda>w. (Returns ''fresh'', w + 7))) (0, 5 :: nat) None
       = (Returns ''[]'', one_entry, (0, 5))"
    using d1 x by (intro hit conjI)
  note miss = getOrSet_hit_or_compute_once [where svc = one_entry and key = "''user:1''"
      and now = 1000 and later = 2000
      and callback = "\<lambda>w. (Returns ''fresh'', w + 7)" and w = "5 :: nat" and ttl = None
      and v = "''fresh''" and ?w1.0 = 12,
      THEN conjunct2, THEN conjunct1, rule_format]
  have "\<exists>svc2. CacheService_getOrSet one_entry 1000 2000 ''user:1''
        (counted (\<lambda>w. (Returns ''fresh'', w + 7))) (0, 5 :: nat) None
       = (Returns ''fresh'', svc2, (1, 12))
     \<and> data (cache svc2) ''user:1''
         = Some (''fresh'', expiresAt 2000 (stdTTL (cache one_entry))
             (Some (nullish_default None (Num 3600))))"
    using d2 by (intro miss) simp
  then have m: "fst (CacheService_getOrSet one_entry 1000 2000 ''user:1''
        (counted (\<lambda>w. (Returns ''fresh'', w + 7))) (0, 5 :: nat) None) = Returns ''fresh''"
    and n: "snd (snd (CacheService_getOrSet one_entry 1000 2000 ''user:1''
        (counted (\<lambda>w. (Returns ''fresh'', w + 7))) (0, 5 :: nat) None)) = (1, 12)"
    by auto
  from d1 x h d2 m n show ?thesis
    by (intro conjI)
qed

section \<open>delete\<close>

text \<open>
  C8, as the claim states it, fails for the in-process store: its \<open>delete\<close> returns
  the number of deleted entries, 1 for the key that is in the store and 0 for a key
  that is not.
\<close>

theorem delete_result_counterexample:
  "fst (CacheService_delete one_entry ''users:all'') = 1
   \<and> fst (CacheService_delete (CacheService_new :: string CacheService) ''users:all'') = 0"
  by (simp add: one_entry_def CacheService_delete_def CacheService_set_def
      CacheService_new_def NodeCache_new_def NodeCache_set_def NodeCache_del_def)

text \<open>
  C8, amended. The network-backed \<open>delete\<close> returns true whenever the store is
  connected and the client's \<open>del\<close> does not throw, whatever number \<open>n\<close> of removed
  keys the client reports, and false when the call throws or the store is not
  connected. The in-process \<open>delete\<close> returns the number of entries it removed: 0
  when the key has no entry, 1 when it has one. After it the key has no entry, and a
  second \<open>delete\<close> of the key returns 0 and leaves the store as the first one left it.
\<close>

theorem delete_reports_attempt:
  "(isAvailable st \<longrightarrow> fst (RedisCache_delete st key (Returns n)) = True
      \<and> fst (RedisCache_delete st key Throws) = False)
   \<and> (\<not> isAvailable st \<longrightarrow> fst (RedisCache_delete st key r) = False)
   \<and> fst (CacheService_delete svc key) = (if data (cache svc) key = None then 0 else 1)
   \<and> data (cache (snd (CacheService_delete svc key))) key = None
   \<and> CacheService_delete (snd (CacheService_delete svc key)) key
       = (0, snd (CacheService_delete svc key))"
  by (auto simp: RedisCache_delete_def CacheService_delete_def NodeCache_del_def Let_def
      split: option.splits)

theorem delete_reports_attempt_witness:
  "isAvailable up_store
   \<and> fst (RedisCache_delete up_store ''users:all'' (Returns 0)) = True
   \<and> fst (RedisCache_delete up_store ''users:all'' (Returns 1)) = True
   \<and> \<not> isAvailable down_store
   \<and> fst (RedisCache_delete down_store ''users:all'' (Returns 1)) = False
   \<and> CacheService_delete (snd (CacheService_delete one_entry ''users:all'')) ''users:all''
       = (0, snd (CacheService_delete one_entry ''users:all''))"
proof -
  have u: "isAvailable up_store" and d: "\<not> isAvailable down_store"
    by (simp_all add: up_store_eq down_store_eq)
  note a = delete_reports_attempt [where st = up_store and key = "''users:all''" and n = 0
      and svc = one_entry]
  note b = delete_reports_attempt [where st = up_store and key = "''users:all''" and n = 1
      and svc = one_entry]
  note c = delete_reports_attempt [where st = down_store and key = "''users:all''"
      and r = "Returns 1" and svc = one_entry]
  have "fst (RedisCache_delete up_store ''users:all'' (Returns 0)) = True"
    using a u by blast
  moreover have "fst (RedisCache_delete up_store ''users:all'' (Returns 1)) = True"
    using b u by blast
  moreover have "fst (RedisCache_delete down_store ''users:all'' (Returns 1)) = False"
    using c d by blast
  moreover have "CacheService_delete (snd (CacheService_delete one_entry ''users:all''))
      ''users:all'' = (0, snd (CacheService_delete one_entry ''users:all''))"
    using a by blast
  ultimately show ?thesis
    using u d by (intro conjI)
qed


section \<open>has and get\<close>

text \<open>
  C9, as the claim states it, fails: when the service holds the empty text under the
  key, \<open>exists\<close> reports the key and \<open>has\<close> returns true, while \<open>get\<close> takes the
  empty text for a miss and returns null, even with a parser that accepts every text.
\<close>

theorem has_without_get_counterexample:
  "fst (RedisCache_has up_store ''user:1''
      (server_exists [''user:1'' \<mapsto> []] ''user:1'')) = True
   \<and> fst (RedisCache_get (\<lambda>s. Returns (Some s)) up_store ''user:1''
      (server_get [''user:1'' \<mapsto> []] ''user:1'')) = None"
  by (simp add: RedisCache_has_def RedisCache_get_def server_exists_def server_get_def
      up_store_eq called_def)

text \<open>
  C9, amended. On the same content \<open>srv\<close> of the service and with no failing call:
  while connected, \<open>has\<close> is true exactly when the service holds the key, and \<open>get\<close>
  returns a value exactly when the text held under the key is not empty and parses to
  a value other than null; so a \<open>get\<close> that returns a value implies a true \<open>has\<close>,
  in every state. While not connected \<open>has\<close> is false and \<open>get\<close> is null. In the
  in-process store \<open>has\<close> is true exactly when \<open>get\<close> returns a value.
\<close>

theorem has_and_get:
  "(isAvailable st \<longrightarrow>
      fst (RedisCache_has st key (server_exists srv key)) = (srv key \<noteq> None)
      \<and> (fst (RedisCache_get JSON_parse st key (server_get srv key)) \<noteq> None)
          = (\<exists>d v. srv key = Some d \<and> d \<noteq> [] \<and> JSON_parse d = Returns (Some v)))
   \<and> (fst (RedisCache_get JSON_parse st key (server_get srv key)) \<noteq> None
        \<longrightarrow> fst (RedisCache_has st key (server_exists srv key)))
   \<and> (\<not> isAvailable st \<longrightarrow>
        \<not> fst (RedisCache_has st key (server_exists srv key))
        \<and> fst (RedisCache_get JSON_parse st key (server_get srv key)) = None)
   \<and> fst (CacheService_has svc now key) = (fst (CacheService_get svc now key) \<noteq> None)"
proof -
  have a: "isAvailable st \<Longrightarrow>
      fst (RedisCache_has st key (server_exists srv key)) = (srv key \<noteq> None)"
    by (simp add: RedisCache_has_def server_exists_def Let_def)
  have b: "isAvailable st \<Longrightarrow>
      (fst (RedisCache_get JSON_parse st key (server_get srv key)) \<noteq> None)
        = (\<exists>d v. srv key = Some d \<and> d \<noteq> [] \<and> JSON_parse d = Returns (Some v))"
    by (cases "srv key")
      (auto simp: RedisCache_get_def server_get_def Let_def split: reply.splits)
  have c: "\<not> isAvailable st \<Longrightarrow>
      \<not> fst (RedisCache_has st key (server_exists srv key))
      \<and> fst (RedisCache_get JSON_parse st key (server_get srv key)) = None"
    by (simp add: RedisCache_has_def RedisCache_get_def)
  have d: "fst (CacheService_has svc now key) = (fst (CacheService_get svc now key) \<noteq> None)"
    by (simp add: CacheService_has_def CacheService_get_def NodeCache_has_def
        NodeCache_get_def split: option.splits prod.splits)
  have e: "fst (RedisCache_get JSON_parse st key (server_get srv key)) \<noteq> None
      \<Longrightarrow> fst (RedisCache_has st key (server_exists srv key))"
    using a b c by (cases "isAvailable st") auto
  from a b c d e show ?thesis
    by blast
qed

theorem has_and_get_witness:
  "isAvailable up_store
   \<and> fst (RedisCache_has up_store ''user:1''
        (server_exists [''user:1'' \<mapsto> ''{}''] ''user:1'')) = True
   \<and> fst (RedisCache_get (\<lambda>s. Returns (Some s)) up_store ''user:1''
        (server_get [''user:1'' \<mapsto> ''{}''] ''user:1'')) = Some ''{}''
   \<and> \<not> isAvailable down_store
   \<and> fst (RedisCache_has down_store ''user:1''
        (server_exists [''user:1'' \<mapsto> ''{}''] ''user:1'')) = False"
proof -
  have u: "isAvailable up_store" and d: "\<not> isAvailable down_store"
    by (simp_all add: up_store_eq down_store_eq)
  note a = has_and_get [where st = up_store and key = "''user:1''"
      and srv = "[''user:1'' \<mapsto> ''{}'']" and JSON_parse = "\<lambda>s. Returns (Some s)"
      and svc = one_entry and now = 0]
  note b = has_and_get [where st = down_store and key = "''user:1''"
      and srv = "[''user:1'' \<mapsto> ''{}'']" and JSON_parse = "\<lambda>s. Returns (Some s)"
      and svc = one_entry and now = 0]
  have "fst (RedisCache_has up_store ''user:1''
        (server_exists [''user:1'' \<mapsto> ''{}''] ''user:1'')) = True"
    using a u by simp
  moreover have "fst (RedisCache_get (\<lambda>s. Returns (Some s)) up_store ''user:1''
        (server_get [''user:1'' \<mapsto> ''{}''] ''user:1'')) = Some ''{}''"
    using u by (simp add: RedisCache_get_def server_get_def Let_def)
  moreover have "fst (RedisCache_has down_store ''user:1''
        (server_exists [''user:1'' \<mapsto> ''{}''] ''user:1'')) = False"
    using b d by simp
  ultimately show ?thesis
    using u d by (intro conjI)
qed


section \<open>The reconnection timer\<close>

lemma spaced_snoc:
  "spaced d ts \<Longrightarrow> \<forall>u \<in> set ts. u + d \<le> t \<Longrightarrow> spaced d (ts @ [t])"
  by (induction d ts rule: spaced.induct) auto

lemma fresh_starts_logged:
  "fresh_starts (logged l m st) =
     (if m = ''Attempting to reconnect to Redis...'' then fresh_starts st @ [clock st]
      else fresh_starts st)"
  by (simp add: fresh_starts_def logged_def)

lemma timer_inv_cong:
  "reconnectionTimer st' = reconnectionTimer st \<Longrightarrow> intervals st' = intervals st
    \<Longrightarrow> logger st' = logger st \<Longrightarrow> clock st \<le> clock st'
    \<Longrightarrow> timer_inv st \<Longrightarrow> timer_inv st'"
  by (auto simp: timer_inv_def fresh_starts_def split: option.splits)

lemma timer_inv_logged:
  "m \<noteq> ''Attempting to reconnect to Redis...'' \<Longrightarrow> timer_inv st
    \<Longrightarrow> timer_inv (logged l m st)"
  by (auto simp: timer_inv_def fresh_starts_def logged_def split: option.splits)

lemma timer_inv_startReconnection:
  "timer_inv st \<Longrightarrow> timer_inv (startReconnection st)"
  by (auto simp: timer_inv_def fresh_starts_def startReconnection_def
      split: option.splits)

lemma timer_inv_stopReconnectionTimer:
  "timer_inv st \<Longrightarrow> timer_inv (stopReconnectionTimer st)"
  by (auto simp: timer_inv_def fresh_starts_def stopReconnectionTimer_def
      split: option.splits)

lemma timer_inv_on_error:
  "timer_inv st \<Longrightarrow> timer_inv (on_error st)"
  unfolding on_error_def
  by (auto intro!: timer_inv_startReconnection
      intro: timer_inv_cong [OF _ _ _ _ timer_inv_logged [of "''Redis client error''" st Err]])

lemma timer_inv_on_connect:
  "timer_inv st \<Longrightarrow> timer_inv (on_connect st)"
  unfolding on_connect_def
  by (intro timer_inv_logged timer_inv_stopReconnectionTimer)
    (auto elim: timer_inv_cong [rotated -1])

lemma timer_inv_connect_begin:
  "timer_inv st \<Longrightarrow> timer_inv (connect_begin st closed)"
  unfolding connect_begin_def Let_def
  by (auto intro!: timer_inv_startReconnection timer_inv_logged
      simp: called_def createRedisClient_def elim: timer_inv_cong [rotated -1])

lemma timer_inv_connect_resolved:
  "timer_inv st \<Longrightarrow> timer_inv (connect_resolved st)"
  unfolding connect_resolved_def
  by (intro timer_inv_logged) (auto elim: timer_inv_cong [rotated -1])

lemma timer_inv_connect_rejected:
  "timer_inv st \<Longrightarrow> timer_inv (connect_rejected st)"
proof -
  assume a: "timer_inv st"
  let ?st1 = "st\<lparr>isAvailable := False, connecting := connecting st - 1\<rparr>"
  have b: "timer_inv ?st1"
    using a by (auto elim: timer_inv_cong [rotated -1])
  have c: "timer_inv (logged Warn m ?st1)"
    if "m \<noteq> ''Attempting to reconnect to Redis...''" for m
    using that b by (rule timer_inv_logged)
  show ?thesis
    unfolding connect_rejected_def Let_def
    by (auto intro!: timer_inv_startReconnection c
        intro: timer_inv_cong [OF _ _ _ _ c])
qed


lemma timer_inv_disconnect:
  "timer_inv st \<Longrightarrow> timer_inv (snd (disconnect st r))"
proof -
  assume "timer_inv st"
  then have "timer_inv (stopReconnectionTimer st)"
    by (rule timer_inv_stopReconnectionTimer)
  then have "timer_inv (called Quit (stopReconnectionTimer st))"
    by (auto simp: called_def elim: timer_inv_cong [rotated -1])
  then show ?thesis
    by (simp add: disconnect_def Let_def split: reply.splits)
qed

lemma timer_inv_called:
  "timer_inv st \<Longrightarrow> timer_inv (called c st)"
  by (auto simp: called_def elim: timer_inv_cong [rotated -1])

lemma timer_inv_operations:
  assumes "timer_inv st"
  shows "timer_inv (snd (RedisCache_get JSON_parse st key rg))"
    and "timer_inv (snd (RedisCache_set JSON_stringify st key v ttl rs))"
    and "timer_inv (snd (RedisCache_delete st key rd))"
    and "timer_inv (snd (RedisCache_has st key rh))"
    and "timer_inv (snd (RedisCache_flush st rf))"
  using assms
  by (auto simp: RedisCache_get_def RedisCache_set_def RedisCache_delete_def
      RedisCache_has_def RedisCache_flush_def Let_def
      intro!: timer_inv_logged timer_inv_called split: reply.splits option.splits)

lemma timer_inv_interval_fires:
  assumes inv: "timer_inv st"
    and found: "find (\<lambda>x. tid x = i) (intervals st) = Some x"
    and due: "due x \<le> clock st"
  shows "timer_inv (interval_callback
    (st\<lparr>intervals := map (rearm i (clock st)) (intervals st)\<rparr>) closed)"
proof -
  let ?st1 = "st\<lparr>intervals := map (rearm i (clock st)) (intervals st)\<rparr>"
  from found have nonempty: "intervals st \<noteq> []"
    by auto
  with inv obtain y where y: "intervals st = [y]" "reconnectionTimer st = Some (tid y)"
    "period y = reconnectionInterval"
    "\<forall>t \<in> set (fresh_starts st). t + reconnectionInterval \<le> due y"
    by (auto simp: timer_inv_def split: option.splits)
  from found y(1) have xy: "x = y" "tid y = i"
    by (auto split: if_splits)
  from inv have past: "\<forall>t \<in> set (fresh_starts st). t \<le> clock st"
    and sp: "spaced reconnectionInterval (fresh_starts st)"
    by (auto simp: timer_inv_def)
  from y(4) due xy have old: "\<forall>t \<in> set (fresh_starts st). t + reconnectionInterval \<le> clock st"
    by auto
  have rearmed: "intervals ?st1 = [y\<lparr>due := clock st + reconnectionInterval\<rparr>]"
    using y xy by (simp add: rearm_def)
  have inv1: "timer_inv ?st1"
    using rearmed y past sp old
    by (auto simp: timer_inv_def fresh_starts_def)
  let ?st2 = "(logged Info ''Attempting to reconnect to Redis...'' ?st1)
    \<lparr>connectionAttempts := 0\<rparr>"
  have fs: "fresh_starts ?st2 = fresh_starts st @ [clock st]"
    by (simp add: fresh_starts_def logged_def)
  have "spaced reconnectionInterval (fresh_starts st @ [clock st])"
    using sp old by (rule spaced_snoc)
  then have inv2: "timer_inv ?st2"
    using rearmed y past old fs
    by (auto simp: timer_inv_def logged_def)
  show ?thesis
    unfolding interval_callback_def
    using inv1 inv2 by (auto intro: timer_inv_connect_begin)
qed

lemma timer_inv_step:
  "timer_inv st \<Longrightarrow> step e st = Some st1 \<Longrightarrow> timer_inv st1"
proof (cases e)
  case (Elapse d)
  assume "timer_inv st" "step e st = Some st1"
  with Elapse show ?thesis
    by (auto elim: timer_inv_cong [rotated -1])
next
  case (TimeoutFires t closed)
  assume a: "timer_inv st" and b: "step e st = Some st1"
  from a have "timer_inv (st\<lparr>timeouts := remove1 t (timeouts st)\<rparr>)"
    by (auto elim: timer_inv_cong [rotated -1])
  with b TimeoutFires show ?thesis
    by (auto split: if_splits intro: timer_inv_connect_begin)
next
  case (IntervalFires i closed)
  assume "timer_inv st" "step e st = Some st1"
  with IntervalFires show ?thesis
    by (auto split: option.splits if_splits intro: timer_inv_interval_fires)
qed (auto split: if_splits
    intro: timer_inv_on_error timer_inv_on_connect timer_inv_connect_resolved
      timer_inv_connect_rejected timer_inv_disconnect timer_inv_operations)

lemma timer_inv_run:
  "run es st = Some st1 \<Longrightarrow> timer_inv st \<Longrightarrow> timer_inv st1"
proof (induction es arbitrary: st)
  case Nil
  then show ?case by simp
next
  case (Cons e es)
  then show ?case
    by (auto split: option.splits dest: timer_inv_step)
qed

lemma timer_inv_new:
  "timer_inv (RedisCache_new closed)"
proof -
  have "timer_inv (createRedisClient
         \<lparr>client = 0, isAvailable = False, connectionAttempts = 0,
          reconnectionTimer = None, calls = [], logger = [], clock = 0, intervals = [],
          timeouts = [], connecting = 0, created = 0, next_tid = 0\<rparr>)"
    by (simp add: timer_inv_def createRedisClient_def fresh_starts_def)
  then show ?thesis
    unfolding RedisCache_new_def by (rule timer_inv_connect_begin)
qed

lemma one_timer_spaced_starts:
  assumes "run es (RedisCache_new c0) = Some st"
  shows "length (intervals st) \<le> 1
    \<and> (\<forall>x \<in> set (intervals st). period x = reconnectionInterval)
    \<and> (intervals st = [] \<longleftrightarrow> reconnectionTimer st = None)
    \<and> spaced reconnectionInterval (fresh_starts st)"
proof -
  have "timer_inv st"
    using assms timer_inv_new by (rule timer_inv_run)
  then show ?thesis
    by (auto simp: timer_inv_def split: option.splits)
qed


section \<open>Runs on concrete events\<close>

lemma show_nat_digit:
  "n < 10 \<Longrightarrow> show_nat n = [''0123456789'' ! n]"
  by (simp add: show_nat.simps)

lemmas handler_defs =
  RedisCache_new_def connect_begin_def connect_resolved_def connect_rejected_def
  createRedisClient_def startReconnection_def stopReconnectionTimer_def on_error_def
  on_connect_def interval_callback_def disconnect_def rearm_def called_def logged_def
  maxConnectionAttempts_def connectionRetryDelay_def reconnectionInterval_def Let_def
  show_nat_digit

lemma run_third_attempt:
  "run [ConnectRejects :: string event, Elapse 5000, TimeoutFires 5000 False, ConnectRejects, Elapse 5000,
     TimeoutFires 10000 False] (RedisCache_new False) = Some third_attempt"
  by (simp add: handler_defs third_attempt_def)

lemma run_two_ticks:
  "\<exists>st. run [ConnectRejects :: string event, Elapse 5000, TimeoutFires 5000 False, ConnectRejects,
       Elapse 5000, TimeoutFires 10000 False, ConnectRejects, Elapse 30000,
       IntervalFires 0 False, Elapse 30000, IntervalFires 0 False] (RedisCache_new False)
     = Some st \<and> fresh_starts st = [40000, 70000]
     \<and> intervals st = [\<lparr>tid = 0, period = 30000, due = 100000\<rparr>]"
  by (simp add: handler_defs fresh_starts_def)

section \<open>Bounded retries, then periodic reconnection\<close>

text \<open>
  C2. When a connection attempt fails and \<open>connectionAttempts\<close> has reached
  \<open>maxConnectionAttempts\<close> (3), the \<open>catch\<close> block schedules no retry (\<open>timeouts\<close> is
  unchanged, where below 3 it adds one due in 5000 ms) and makes no call; the
  reconnection timer is set afterwards: a new timer of period 30000 ms, first due in
  30000 ms, unless one is already running. When the timer fires while the store is not
  available, its callback resets \<open>connectionAttempts\<close> to 0 and enters \<open>connect\<close>,
  which makes attempt 1 (one \<open>connect\<close> call, now pending) and records a fresh start
  at the current time; while the store is available the callback does nothing. In
  every state that a run of events reaches from the constructor there is at most one
  reconnection timer, its period is 30000 ms, and the fresh starts are at least
  30000 ms apart.
\<close>

theorem exhausted_retries_then_periodic_reconnection:
  "maxConnectionAttempts = 3
   \<and> (maxConnectionAttempts \<le> connectionAttempts st \<longrightarrow>
        timeouts (connect_rejected st) = timeouts st
        \<and> calls (connect_rejected st) = calls st
        \<and> \<not> isAvailable (connect_rejected st)
        \<and> reconnectionTimer (connect_rejected st) \<noteq> None
        \<and> (reconnectionTimer st = None \<longrightarrow>
             intervals (connect_rejected st) = intervals st @
               [\<lparr>tid = next_tid st, period = 30000, due = clock st + 30000\<rparr>])
        \<and> (reconnectionTimer st \<noteq> None \<longrightarrow>
             intervals (connect_rejected st) = intervals st))
   \<and> (connectionAttempts st < maxConnectionAttempts \<longrightarrow>
        timeouts (connect_rejected st) = timeouts st @ [clock st + 5000]
        \<and> intervals (connect_rejected st) = intervals st
        \<and> reconnectionTimer (connect_rejected st) = reconnectionTimer st)
   \<and> (\<not> isAvailable st \<longrightarrow>
        connectionAttempts (interval_callback st closed) = 1
        \<and> calls (interval_callback st closed)
            = calls st @ [(client (interval_callback st closed), Connect)]
        \<and> connecting (interval_callback st closed) = connecting st + 1
        \<and> fresh_starts (interval_callback st closed) = fresh_starts st @ [clock st]
        \<and> timeouts (interval_callback st closed) = timeouts st
        \<and> intervals (interval_callback st closed) = intervals st)
   \<and> (isAvailable st \<longrightarrow> interval_callback st closed = st)
   \<and> (run es (RedisCache_new c0) = Some st1 \<longrightarrow>
        length (intervals st1) \<le> 1
        \<and> (\<forall>x \<in> set (intervals st1). period x = 30000)
        \<and> spaced 30000 (fresh_starts st1))"
proof -
  have a: "maxConnectionAttempts \<le> connectionAttempts st \<Longrightarrow>
        timeouts (connect_rejected st) = timeouts st
        \<and> calls (connect_rejected st) = calls st
        \<and> \<not> isAvailable (connect_rejected st)
        \<and> reconnectionTimer (connect_rejected st) \<noteq> None
        \<and> (reconnectionTimer st = None \<longrightarrow>
             intervals (connect_rejected st) = intervals st @
               [\<lparr>tid = next_tid st, period = 30000, due = clock st + 30000\<rparr>])
        \<and> (reconnectionTimer st \<noteq> None \<longrightarrow>
             intervals (connect_rejected st) = intervals st)"
    by (simp add: connect_rejected_def startReconnection_def logged_def Let_def
        reconnectionInterval_def)
  have b: "connectionAttempts st < maxConnectionAttempts \<Longrightarrow>
        timeouts (connect_rejected st) = timeouts st @ [clock st + 5000]
        \<and> intervals (connect_rejected st) = intervals st
        \<and> reconnectionTimer (connect_rejected st) = reconnectionTimer st"
    by (simp add: connect_rejected_def logged_def Let_def connectionRetryDelay_def)
  have c: "\<not> isAvailable st \<Longrightarrow>
        connectionAttempts (interval_callback st closed) = 1
        \<and> calls (interval_callback st closed)
            = calls st @ [(client (interval_callback st closed), Connect)]
        \<and> connecting (interval_callback st closed) = connecting st + 1
        \<and> fresh_starts (interval_callback st closed) = fresh_starts st @ [clock st]
        \<and> timeouts (interval_callback st closed) = timeouts st
        \<and> intervals (interval_callback st closed) = intervals st"
    by (simp add: interval_callback_def connect_begin_def maxConnectionAttempts_def
        logged_def called_def createRedisClient_def fresh_starts_def Let_def)
  have d: "isAvailable st \<Longrightarrow> interval_callback st closed = st"
    by (simp add: interval_callback_def)
  have e: "run es (RedisCache_new c0) = Some st1 \<Longrightarrow>
        length (intervals st1) \<le> 1
        \<and> (\<forall>x \<in> set (intervals st1). period x = 30000)
        \<and> spaced 30000 (fresh_starts st1)"
    using one_timer_spaced_starts [of es c0 st1]
    by (simp add: reconnectionInterval_def)
  have m: "maxConnectionAttempts = 3"
    by (simp add: maxConnectionAttempts_def)
  from m a b c d e show ?thesis
    by blast
qed


theorem exhausted_retries_then_periodic_reconnection_witness:
  "run [ConnectRejects :: string event, Elapse 5000, TimeoutFires 5000 False, ConnectRejects, Elapse 5000,
     TimeoutFires 10000 False] (RedisCache_new False) = Some third_attempt
   \<and> maxConnectionAttempts \<le> connectionAttempts third_attempt
   \<and> timeouts (connect_rejected third_attempt) = []
   \<and> intervals (connect_rejected third_attempt)
       = [\<lparr>tid = 0, period = 30000, due = 40000\<rparr>]
   \<and> \<not> isAvailable (connect_rejected third_attempt)
   \<and> connectionAttempts (interval_callback (connect_rejected third_attempt) False) = 1
   \<and> (\<exists>st. run [ConnectRejects :: string event, Elapse 5000, TimeoutFires 5000 False, ConnectRejects,
          Elapse 5000, TimeoutFires 10000 False, ConnectRejects, Elapse 30000,
          IntervalFires 0 False, Elapse 30000, IntervalFires 0 False] (RedisCache_new False)
        = Some st \<and> fresh_starts st = [40000, 70000]
        \<and> spaced 30000 (fresh_starts st) \<and> length (intervals st) \<le> 1)"
proof -
  have h: "maxConnectionAttempts \<le> connectionAttempts third_attempt"
    and f: "reconnectionTimer third_attempt = None" "timeouts third_attempt = []"
      "intervals third_attempt = []" "next_tid third_attempt = 0"
      "clock third_attempt = 10000"
    by (simp_all add: third_attempt_def maxConnectionAttempts_def)
  note a = exhausted_retries_then_periodic_reconnection [where st = third_attempt
      and closed = False and es = "[] :: string event list" and ?c0.0 = False and ?st1.0 = third_attempt,
      THEN conjunct2, THEN conjunct1, rule_format, OF h]
  have a1: "timeouts (connect_rejected third_attempt) = []"
    and a2: "intervals (connect_rejected third_attempt)
       = [\<lparr>tid = 0, period = 30000, due = 40000\<rparr>]"
    and a3: "\<not> isAvailable (connect_rejected third_attempt)"
    using a f by simp_all
  note b = exhausted_retries_then_periodic_reconnection
      [where st = "connect_rejected third_attempt"
      and closed = False and es = "[] :: string event list" and ?c0.0 = False and ?st1.0 = third_attempt,
      THEN conjunct2, THEN conjunct2, THEN conjunct2, THEN conjunct1, rule_format, OF a3]
  have b1: "connectionAttempts (interval_callback (connect_rejected third_attempt) False) = 1"
    using b by simp
  obtain st where r: "run [ConnectRejects :: string event, Elapse 5000, TimeoutFires 5000 False,
          ConnectRejects, Elapse 5000, TimeoutFires 10000 False, ConnectRejects,
          Elapse 30000, IntervalFires 0 False, Elapse 30000, IntervalFires 0 False]
          (RedisCache_new False) = Some st"
    and fs: "fresh_starts st = [40000, 70000]"
    using run_two_ticks by blast
  note c = exhausted_retries_then_periodic_reconnection [where st = third_attempt
      and closed = False and ?c0.0 = False and ?st1.0 = st
      and es = "[ConnectRejects :: string event, Elapse 5000, TimeoutFires 5000 False,
          ConnectRejects, Elapse 5000, TimeoutFires 10000 False, ConnectRejects,
          Elapse 30000, IntervalFires 0 False, Elapse 30000, IntervalFires 0 False]",
      THEN conjunct2, THEN conjunct2, THEN conjunct2, THEN conjunct2, THEN conjunct2,
      rule_format, OF r]
  have c1: "spaced 30000 (fresh_starts st)" and c2: "length (intervals st) \<le> 1"
    using c by simp_all
  from r fs c1 c2 have e: "\<exists>st. run [ConnectRejects :: string event, Elapse 5000, TimeoutFires 5000 False,
          ConnectRejects, Elapse 5000, TimeoutFires 10000 False, ConnectRejects,
          Elapse 30000, IntervalFires 0 False, Elapse 30000, IntervalFires 0 False]
          (RedisCache_new False) = Some st \<and> fresh_starts st = [40000, 70000]
        \<and> spaced 30000 (fresh_starts st) \<and> length (intervals st) \<le> 1"
    by blast
  from run_third_attempt h a1 a2 a3 b1 e show ?thesis
    by (intro conjI)
qed

section \<open>An error on the live connection\<close>

text \<open>
  C3. When a handle emits \<open>error\<close> while the store is available, the store becomes
  unavailable and the reconnection timer is set: a new timer of period 30000 ms, first
  due in 30000 ms, unless one is already running. The handler makes no call on the
  client, schedules no retry, starts no connection attempt and leaves
  \<open>connectionAttempts\<close> as it is. In every state that a run of events reaches from the
  constructor, exactly one reconnection timer is running after the handler.
\<close>

theorem connection_error_starts_periodic_reconnection:
  "(isAvailable st \<longrightarrow>
      \<not> isAvailable (on_error st)
      \<and> reconnectionTimer (on_error st) \<noteq> None
      \<and> (reconnectionTimer st = None \<longrightarrow>
           intervals (on_error st) = intervals st @
             [\<lparr>tid = next_tid st, period = 30000, due = clock st + 30000\<rparr>])
      \<and> (reconnectionTimer st \<noteq> None \<longrightarrow> intervals (on_error st) = intervals st)
      \<and> timeouts (on_error st) = timeouts st
      \<and> calls (on_error st) = calls st
      \<and> connecting (on_error st) = connecting st
      \<and> connectionAttempts (on_error st) = connectionAttempts st)
   \<and> (isAvailable st \<and> run es (RedisCache_new c0) = Some st \<longrightarrow>
        length (intervals (on_error st)) = 1)"
proof -
  have a: "isAvailable st \<Longrightarrow>
      \<not> isAvailable (on_error st)
      \<and> reconnectionTimer (on_error st) \<noteq> None
      \<and> (reconnectionTimer st = None \<longrightarrow>
           intervals (on_error st) = intervals st @
             [\<lparr>tid = next_tid st, period = 30000, due = clock st + 30000\<rparr>])
      \<and> (reconnectionTimer st \<noteq> None \<longrightarrow> intervals (on_error st) = intervals st)
      \<and> timeouts (on_error st) = timeouts st
      \<and> calls (on_error st) = calls st
      \<and> connecting (on_error st) = connecting st
      \<and> connectionAttempts (on_error st) = connectionAttempts st"
    by (simp add: on_error_def startReconnection_def logged_def reconnectionInterval_def)
  have b: "length (intervals (on_error st)) = 1"
    if "isAvailable st" "run es (RedisCache_new c0) = Some st"
  proof -
    have "timer_inv st"
      using that(2) timer_inv_new by (rule timer_inv_run)
    then have "timer_inv (on_error st)"
      by (rule timer_inv_on_error)
    moreover have "reconnectionTimer (on_error st) \<noteq> None"
      using a that(1) by blast
    ultimately show ?thesis
      by (auto simp: timer_inv_def split: option.splits)
  qed
  from a b show ?thesis
    by blast
qed

lemma run_up_store:
  "run [ClientConnect :: string event, ConnectResolves] (RedisCache_new False) = Some up_store"
  by (simp add: up_store_def down_store_eq [unfolded down_store_def] on_connect_def
      stopReconnectionTimer_def logged_def)

theorem connection_error_starts_periodic_reconnection_witness:
  "isAvailable up_store
   \<and> run [ClientConnect :: string event, ConnectResolves] (RedisCache_new False) = Some up_store
   \<and> \<not> isAvailable (on_error up_store)
   \<and> intervals (on_error up_store) = [\<lparr>tid = 0, period = 30000, due = 30000\<rparr>]
   \<and> timeouts (on_error up_store) = []
   \<and> calls (on_error up_store) = [(0, Connect)]
   \<and> length (intervals (on_error up_store)) = 1"
proof -
  have h: "isAvailable up_store"
    and f: "reconnectionTimer up_store = None" "timeouts up_store = []"
      "intervals up_store = []" "next_tid up_store = 0" "clock up_store = 0"
      "calls up_store = [(0, Connect)]"
    by (simp_all add: up_store_eq)
  note a = connection_error_starts_periodic_reconnection [where st = up_store
      and es = "[ClientConnect :: string event, ConnectResolves]" and ?c0.0 = False,
      THEN conjunct1, rule_format, OF h]
  have a1: "\<not> isAvailable (on_error up_store)"
    and a2: "intervals (on_error up_store) = [\<lparr>tid = 0, period = 30000, due = 30000\<rparr>]"
    and a3: "timeouts (on_error up_store) = []"
    and a4: "calls (on_error up_store) = [(0, Connect)]"
    using a f by simp_all
  note b = connection_error_starts_periodic_reconnection [where st = up_store
      and es = "[ClientConnect :: string event, ConnectResolves]" and ?c0.0 = False,
      THEN conjunct2, rule_format, OF conjI, OF h run_up_store]
  from h run_up_store a1 a2 a3 a4 b show ?thesis
    by (intro conjI)
qed

section \<open>Teardown\<close>

text \<open>
  C4. \<open>disconnect\<close> returns without an error whatever \<open>quit\<close> does, and clears the
  reconnection timer; but it leaves the pending retries (\<open>timeouts\<close>) as they are. In
  the run below the first connection attempt fails, \<open>disconnect\<close> is called while the
  retry is pending, and five seconds later the retry fires: the store makes a new
  connection attempt, after the \<open>quit\<close>, on a new handle. Likewise a connection
  attempt that is pending when \<open>disconnect\<close> is called and fails afterwards schedules
  a retry.
\<close>

theorem pending_retry_fires_after_disconnect:
  "fst (disconnect st r) = Returns ()
   \<and> reconnectionTimer (snd (disconnect st r)) = None
   \<and> timeouts (snd (disconnect st r)) = timeouts st
   \<and> run [ConnectRejects :: string event, Disconnect (Returns ()), Elapse 5000, TimeoutFires 5000 True]
        (RedisCache_new False) = Some after_teardown
   \<and> calls after_teardown = [(0, Connect), (0, Quit), (1, Connect)]
   \<and> connecting after_teardown = 1
   \<and> timeouts (connect_rejected (snd (disconnect (RedisCache_new False) (Returns ()))))
       = [5000]"
proof -
  have "fst (disconnect st r) = Returns ()"
    by (simp add: disconnect_def Let_def split: reply.splits)
  moreover have "reconnectionTimer (snd (disconnect st r)) = None"
    by (simp add: disconnect_def stopReconnectionTimer_def called_def Let_def
        split: reply.splits option.splits)
  moreover have "timeouts (snd (disconnect st r)) = timeouts st"
    by (simp add: disconnect_def stopReconnectionTimer_def called_def Let_def
        split: reply.splits option.splits)
  moreover have "run [ConnectRejects :: string event, Disconnect (Returns ()), Elapse 5000,
      TimeoutFires 5000 True] (RedisCache_new False) = Some after_teardown"
    by (simp add: handler_defs after_teardown_def)
  moreover have "calls after_teardown = [(0, Connect), (0, Quit), (1, Connect)]"
    and "connecting after_teardown = 1"
    by (simp_all add: after_teardown_def)
  moreover have "timeouts (connect_rejected (snd (disconnect (RedisCache_new False)
      (Returns ())))) = [5000]"
    by (simp add: handler_defs)
  ultimately show ?thesis
    by (intro conjI)
qed


end
